theory Spec2Isabelle
  imports Main "HOL-Library.Sublist"
begin

section \<open>Python strings\<close>

text \<open>
  A Python \<open>str\<close> is a sequence of Unicode code points, so it is modelled as a list of
  natural numbers. \<open>lit\<close> turns an ASCII literal of the source into such a list; the few
  non-ASCII characters of the source's messages are written as their code points.
  Substring tests (\<open>a in b\<close>) are \<open>sublist a b\<close>.
\<close>

type_synonym str = "nat list"

definition lit :: "string \<Rightarrow> str" where
  "lit s = map of_char s"

text \<open>The code points for which \<open>str.isspace\<close> holds: what \<open>str.strip()\<close> removes.\<close>

definition isspace :: "nat \<Rightarrow> bool" where
  "isspace c \<longleftrightarrow>
     (9 \<le> c \<and> c \<le> 13) \<or> (28 \<le> c \<and> c \<le> 32) \<or> c = 133 \<or> c = 160 \<or> c = 5760 \<or>
     (8192 \<le> c \<and> c \<le> 8202) \<or> c = 8232 \<or> c = 8233 \<or> c = 8239 \<or> c = 8287 \<or> c = 12288"

definition str_strip :: "str \<Rightarrow> str" where
  "str_strip s = rev (dropWhile isspace (rev (dropWhile isspace s)))"

text \<open>
  \<open>str.lower()\<close> and \<open>str.upper()\<close>. The source only ever compares their results with
  ASCII literals, so the model maps the ASCII letters and those code points outside ASCII
  whose case mapping produces an ASCII character (Unicode's special casing); every other
  code point is left as it is, which no comparison with an ASCII literal can tell apart
  from Python's result.
\<close>

definition lower_special :: "(nat \<times> str) list" where
  "lower_special = [(0x130, [0x69, 0x307]), (0x212A, [0x6B])]"

definition lower_cp :: "nat \<Rightarrow> str" where
  "lower_cp c =
     (if 65 \<le> c \<and> c \<le> 90 then [c + 32]
      else case map_of lower_special c of Some l \<Rightarrow> l | None \<Rightarrow> [c])"

definition str_lower :: "str \<Rightarrow> str" where
  "str_lower s = concat (map lower_cp s)"

definition upper_special :: "(nat \<times> str) list" where
  "upper_special =
     [(0xDF, [0x53, 0x53]), (0x131, [0x49]), (0x149, [0x2BC, 0x4E]), (0x17F, [0x53]),
      (0x1F0, [0x4A, 0x30C]), (0x1E96, [0x48, 0x331]), (0x1E97, [0x54, 0x308]),
      (0x1E98, [0x57, 0x30A]), (0x1E99, [0x59, 0x30A]), (0x1E9A, [0x41, 0x2BE]),
      (0xFB00, [0x46, 0x46]), (0xFB01, [0x46, 0x49]), (0xFB02, [0x46, 0x4C]),
      (0xFB03, [0x46, 0x46, 0x49]), (0xFB04, [0x46, 0x46, 0x4C]), (0xFB05, [0x53, 0x54]),
      (0xFB06, [0x53, 0x54])]"

definition upper_cp :: "nat \<Rightarrow> str" where
  "upper_cp c =
     (if 97 \<le> c \<and> c \<le> 122 then [c - 32]
      else case map_of upper_special c of Some u \<Rightarrow> u | None \<Rightarrow> [c])"

definition str_upper :: "str \<Rightarrow> str" where
  "str_upper s = concat (map upper_cp s)"

text \<open>\<open>len(s.encode('utf-8'))\<close>: the number of bytes of the UTF-8 encoding.\<close>

definition utf8_size :: "nat \<Rightarrow> nat" where
  "utf8_size c = (if c < 0x80 then 1 else if c < 0x800 then 2 else if c < 0x10000 then 3 else 4)"

definition utf8_len :: "str \<Rightarrow> nat" where
  "utf8_len s = sum_list (map utf8_size s)"

text \<open>\<open>sep.join(parts)\<close>.\<close>

fun str_join :: "str \<Rightarrow> str list \<Rightarrow> str" where
  "str_join sep [] = []"
| "str_join sep [x] = x"
| "str_join sep (x # y # ys) = x @ sep @ str_join sep (y # ys)"

text \<open>The delimiter line \<open>'=' * n\<close>.\<close>

definition equals_line :: "nat \<Rightarrow> str" where
  "equals_line n = replicate n 61"

section \<open>Exceptions\<close>

text \<open>
  A raised exception is a value: its class and its text \<open>str(e)\<close>. \<open>except Exception\<close>
  catches every class but \<open>KeyboardInterrupt\<close> and \<open>SystemExit\<close>, which derive from
  \<open>BaseException\<close> only. \<open>OtherException\<close> stands for any other class below
  \<open>Exception\<close> that is not a subclass of one of those listed.
\<close>

datatype exn_class =
  FileNotFoundError | ValueError | PermissionError | UnicodeDecodeError | IndexError
  | OSError | OtherException | KeyboardInterrupt | SystemExit

datatype exn = Exn (exn_class: exn_class) (exn_str: str)

definition is_Exception :: "exn \<Rightarrow> bool" where
  "is_Exception e \<longleftrightarrow> exn_class e \<noteq> KeyboardInterrupt \<and> exn_class e \<noteq> SystemExit"

section \<open>config.py\<close>

text \<open>
  The environment (after \<open>load_dotenv()\<close>) is a map from variable names to values;
  \<open>os.getenv\<close> is the lookup. \<open>if not api_key\<close> holds for \<open>None\<close> and for the empty
  string.
\<close>

record config =
  gemini_api_key :: str

definition api_key_missing_msg :: str where
  "api_key_missing_msg =
     lit ''GEMINI_API_KEY not found in environment variables. '' @
     lit ''Please create a .env file in the project root with your '' @
     lit ''Gemini API key from Google AI Studio.''"

definition get_gemini_api_key :: "(str \<rightharpoonup> str) \<Rightarrow> exn + str" where
  "get_gemini_api_key environ =
     (case environ (lit ''GEMINI_API_KEY'') of
        None \<Rightarrow> Inl (Exn ValueError api_key_missing_msg)
      | Some api_key \<Rightarrow>
          if api_key = [] then Inl (Exn ValueError api_key_missing_msg)
          else Inr (str_strip api_key))"

definition Config_init :: "(str \<rightharpoonup> str) \<Rightarrow> exn + config" where
  "Config_init environ =
     (case get_gemini_api_key environ of
        Inl e \<Rightarrow> Inl e
      | Inr k \<Rightarrow> Inr \<lparr>gemini_api_key = k\<rparr>)"

section \<open>gemini\_client.py\<close>

text \<open>
  The remote service is a function from a request (model name and prompt; the generation
  configuration is fixed) to the outcome of \<open>generate_content\<close>: a response, whose
  \<open>text\<close> may be missing (\<open>None\<close> here also stands for a falsy response object), or a
  raised exception. Each operation returns, next to its result, the list of requests it
  sent, so that "no network call" is the empty list.
\<close>

datatype outcome = Returned "str option" | Raised exn

type_synonym request = "str \<times> str"

type_synonym remote = "request \<Rightarrow> outcome"

definition build_analysis_prompt :: "str \<Rightarrow> str" where
  "build_analysis_prompt code_context = lit ''Codebase: '' @ code_context"

definition format_response :: "str \<Rightarrow> str" where
  "format_response response_text =
     lit ''\<newline>'' @ equals_line 80 @ lit ''\<newline>'' @
     [0x1F3AF] @ lit '' CODE ANALYSIS RESULTS\<newline>'' @
     equals_line 80 @ lit ''\<newline>\<newline>'' @
     str_strip response_text @
     lit ''\<newline>\<newline>'' @ equals_line 80 @ lit ''\<newline>'' @
     [0x2728] @ lit '' Analysis powered by Google Gemini AI\<newline>'' @
     equals_line 80 @ lit ''\<newline>''"

definition no_content_msg :: str where
  "no_content_msg = [0x274C] @ lit '' No code content provided for analysis.''"

definition no_response_msg :: str where
  "no_response_msg = [0x274C] @ lit '' No response received from Gemini API.''"

definition error_prefix :: str where
  "error_prefix = [0x274C] @ lit '' Error communicating with Gemini API: ''"

definition api_key_hint :: str where
  "api_key_hint =
     lit ''\<newline>'' @ [0x1F4A1] @
     lit '' Make sure your GEMINI_API_KEY is set correctly in the .env file.''"

definition quota_hint :: str where
  "quota_hint =
     lit ''\<newline>'' @ [0x1F4A1] @
     lit '' You may have exceeded your API quota. Check your Google AI Studio dashboard.''"

definition network_hint :: str where
  "network_hint =
     lit ''\<newline>'' @ [0x1F4A1] @ lit '' Check your internet connection and try again.''"

text \<open>The \<open>if\<close>/\<open>elif\<close> chain of the handler: the first keyword that matches wins.\<close>

definition troubleshooting_hint :: "str \<Rightarrow> str" where
  "troubleshooting_hint e_str =
     (if sublist (lit ''API_KEY'') (str_upper e_str) then api_key_hint
      else if sublist (lit ''quota'') (str_lower e_str) then quota_hint
      else if sublist (lit ''network'') (str_lower e_str) then network_hint
      else [])"

definition error_message :: "exn \<Rightarrow> str" where
  "error_message e = error_prefix @ exn_str e @ troubleshooting_hint (exn_str e)"

definition get_suggestions :: "remote \<Rightarrow> str \<Rightarrow> (exn + str) \<times> request list" where
  "get_suggestions remote code_context =
     (if str_strip code_context = [] then (Inr no_content_msg, [])
      else
        let prompt = build_analysis_prompt code_context;
            req = (lit ''gemini-2.5-pro'', prompt)
        in case remote req of
             Returned (Some text) \<Rightarrow>
               if text \<noteq> [] then (Inr (format_response text), [req])
               else (Inr no_response_msg, [req])
           | Returned None \<Rightarrow> (Inr no_response_msg, [req])
           | Raised e \<Rightarrow>
               if is_Exception e then (Inr (error_message e), [req])
               else (Inl e, [req]))"

definition validate_api_key :: "remote \<Rightarrow> (exn + bool) \<times> request list" where
  "validate_api_key remote =
     (let test_prompt =
            lit ''Hello, can you respond with 'API key is working' if you receive this message?'';
          req = (lit ''gemini-2.5-flash'', test_prompt)
      in case remote req of
           Returned (Some text) \<Rightarrow> (Inr (text \<noteq> []), [req])
         | Returned None \<Rightarrow> (Inr False, [req])
         | Raised e \<Rightarrow> if is_Exception e then (Inr False, [req]) else (Inl e, [req]))"

section \<open>Paths\<close>

text \<open>
  A \<open>pathlib\<close> path of the POSIX flavour: whether it starts at the root, and its
  components (the root is not among them, unlike in Python's \<open>parts\<close>). \<open>Path s\<close>
  parses a string: empty components and \<open>.\<close> are dropped, \<open>..\<close> is kept. The names
  that a directory listing yields are single components, so \<open>root / name\<close> appends one.
  \<open>suffix\<close> is the one of Python up to 3.13. Negative indices into \<open>parents\<close>
  need Python 3.10. The texts of exceptions raised by
  library functions are not modelled and left empty.
\<close>

record path =
  is_absolute :: bool
  components :: "str list"

fun split_on :: "nat \<Rightarrow> str \<Rightarrow> str list" where
  "split_on sep [] = [[]]"
| "split_on sep (c # cs) =
     (if c = sep then [] # split_on sep cs
      else case split_on sep cs of [] \<Rightarrow> [[c]] | w # ws \<Rightarrow> (c # w) # ws)"

definition Path :: "str \<Rightarrow> path" where
  "Path s =
     \<lparr>is_absolute = (s \<noteq> [] \<and> hd s = 47),
      components = filter (\<lambda>c. c \<noteq> [] \<and> c \<noteq> lit ''.'') (split_on 47 s)\<rparr>"

definition path_str :: "path \<Rightarrow> str" where
  "path_str p =
     (if is_absolute p then lit ''/'' @ str_join (lit ''/'') (components p)
      else if components p = [] then lit ''.''
      else str_join (lit ''/'') (components p))"

definition path_div :: "path \<Rightarrow> str \<Rightarrow> path" where
  "path_div p name = p\<lparr>components := components p @ [name]\<rparr>"

definition path_name :: "path \<Rightarrow> str" where
  "path_name p = (if components p = [] then [] else last (components p))"

definition rfind :: "nat \<Rightarrow> str \<Rightarrow> nat option" where
  "rfind c s =
     (case filter (\<lambda>i. s ! i = c) (rev [0..<length s]) of [] \<Rightarrow> None | i # _ \<Rightarrow> Some i)"

definition suffix_of :: "path \<Rightarrow> str" where
  "suffix_of p =
     (let name = path_name p
      in case rfind 46 name of
           None \<Rightarrow> []
         | Some i \<Rightarrow> if 0 < i \<and> i < length name - 1 then drop i name else [])"

definition parents :: "path \<Rightarrow> path list" where
  "parents p =
     map (\<lambda>n. p\<lparr>components := take n (components p)\<rparr>) (rev [0..<length (components p)])"

definition last_parent :: "path \<Rightarrow> exn + path" where
  "last_parent p = (if parents p = [] then Inl (Exn IndexError []) else Inr (last (parents p)))"

definition relative_to :: "path \<Rightarrow> path \<Rightarrow> exn + path" where
  "relative_to p other =
     (if is_absolute p = is_absolute other \<and> prefix (components other) (components p)
      then Inr \<lparr>is_absolute = False, components = drop (length (components other)) (components p)\<rparr>
      else Inl (Exn ValueError []))"

section \<open>The filesystem\<close>

text \<open>
  A directory is the list of its entries in the order in which the operating system
  lists them; that order is part of the filesystem state. A file entry carries what
  \<open>open(path, 'r', encoding='utf-8').read()\<close> yields for it: the decoded text or the
  exception raised. Entries that \<open>os.walk\<close> reports as directories but does not enter
  (symbolic links, unreadable directories) are directories without entries.
\<close>

datatype node = File str "exn + str" | Dir str "node list"

datatype fsobj = Missing | NotDirectory | Directory "node list"

type_synonym source_file = "path \<times> (exn + str)"

section \<open>analyzer.py\<close>

definition SUPPORTED_EXTENSIONS :: "str list" where
  "SUPPORTED_EXTENSIONS =
     [lit ''.py'', lit ''.js'', lit ''.ts'', lit ''.jsx'', lit ''.tsx'', lit ''.go'',
      lit ''.java'', lit ''.cs'', lit ''.cpp'', lit ''.c'', lit ''.rb'', lit ''.rs'',
      lit ''.php'', lit ''.kt'', lit ''.swift'', lit ''.scala'']"

definition IGNORED_DIRECTORIES :: "str list" where
  "IGNORED_DIRECTORIES =
     [lit ''__pycache__'', lit ''.venv'', lit ''venv'', lit ''.env'', lit ''.git'',
      lit ''node_modules'', lit ''.next'', lit ''dist'', lit ''build'', lit ''target'',
      lit ''.gradle'', lit ''.idea'', lit ''.vscode'', lit ''.pytest_cache'',
      lit ''.mypy_cache'', lit ''.tox'', lit ''htmlcov'', lit ''.coverage'', lit ''.DS_Store'']"

record analyzer =
  files_analyzed :: nat
  total_size :: nat

text \<open>\<open>CodeAnalyzer.__init__\<close>.\<close>

definition CodeAnalyzer_init :: analyzer where
  "CodeAnalyzer_init = \<lparr>files_analyzed = 0, total_size = 0\<rparr>"

text \<open>
  \<open>os.walk\<close>, top down: a directory is reported with its files before its subdirectories
  are entered, in listing order. The loop body of \<open>_find_source_files\<close> replaces the list
  of subdirectories in place before the walk descends, so the walk takes the filter
  \<open>keep\<close> that the body applies.
\<close>

fun files_of :: "node list \<Rightarrow> (str \<times> (exn + str)) list" where
  "files_of [] = []"
| "files_of (File name r # es) = (name, r) # files_of es"
| "files_of (Dir name sub # es) = files_of es"

fun os_walk :: "(str \<Rightarrow> bool) \<Rightarrow> path \<Rightarrow> node list \<Rightarrow> (path \<times> (str \<times> (exn + str)) list) list"
  and walk_dirs :: "(str \<Rightarrow> bool) \<Rightarrow> path \<Rightarrow> node list \<Rightarrow> (path \<times> (str \<times> (exn + str)) list) list"
where
  "os_walk keep dirpath entries = (dirpath, files_of entries) # walk_dirs keep dirpath entries"
| "walk_dirs keep dirpath [] = []"
| "walk_dirs keep dirpath (File name r # es) = walk_dirs keep dirpath es"
| "walk_dirs keep dirpath (Dir name sub # es) =
     (if keep name then os_walk keep (path_div dirpath name) sub else []) @
     walk_dirs keep dirpath es"

definition is_source :: "path \<Rightarrow> bool" where
  "is_source file_path \<longleftrightarrow> str_lower (suffix_of file_path) \<in> set SUPPORTED_EXTENSIONS"

definition source_files_in :: "path \<Rightarrow> (str \<times> (exn + str)) list \<Rightarrow> source_file list" where
  "source_files_in root files =
     map (\<lambda>(file, r). (path_div root file, r))
       (filter (\<lambda>(file, r). is_source (path_div root file)) files)"

definition find_source_files :: "path \<Rightarrow> node list \<Rightarrow> source_file list" where
  "find_source_files directory entries =
     concat (map (\<lambda>(root, files). source_files_in root files)
       (os_walk (\<lambda>d. d \<notin> set IGNORED_DIRECTORIES) directory entries))"

definition read_file_content :: "source_file \<Rightarrow> exn + str" where
  "read_file_content f =
     (case snd f of
        Inl e \<Rightarrow> Inl e
      | Inr content \<Rightarrow> if utf8_len content > 1024 * 1024 then Inr [] else Inr content)"

definition language_map :: "(str \<times> str) list" where
  "language_map =
     [(lit ''.py'', lit ''Python''), (lit ''.js'', lit ''JavaScript''),
      (lit ''.jsx'', lit ''React JavaScript''), (lit ''.ts'', lit ''TypeScript''),
      (lit ''.tsx'', lit ''React TypeScript''), (lit ''.go'', lit ''Go''),
      (lit ''.java'', lit ''Java''), (lit ''.cs'', lit ''C#''), (lit ''.cpp'', lit ''C++''),
      (lit ''.c'', lit ''C''), (lit ''.rb'', lit ''Ruby''), (lit ''.rs'', lit ''Rust''),
      (lit ''.php'', lit ''PHP''), (lit ''.kt'', lit ''Kotlin''), (lit ''.swift'', lit ''Swift''),
      (lit ''.scala'', lit ''Scala'')]"

definition get_language_from_extension :: "str \<Rightarrow> str" where
  "get_language_from_extension extension =
     (case map_of language_map (str_lower extension) of
        Some name \<Rightarrow> name
      | None \<Rightarrow> lit ''Unknown'')"

definition file_header :: "path \<Rightarrow> path \<Rightarrow> str" where
  "file_header file_path relative_path =
     (lit ''\<newline>'' @ equals_line 80 @ lit ''\<newline>'') @
     (lit ''FILE: '' @ path_str relative_path @ lit ''\<newline>'') @
     (lit ''LANGUAGE: '' @ get_language_from_extension (suffix_of file_path) @ lit ''\<newline>'') @
     (equals_line 80 @ lit ''\<newline>\<newline>'')"

text \<open>
  The body of the \<open>try\<close> in \<open>_aggregate_file_contents\<close> for one file: the parts and
  the counters after it, or the exception it raises. Everything that can raise comes
  before the first update.
\<close>

definition process_file :: "analyzer \<Rightarrow> str list \<Rightarrow> source_file \<Rightarrow> exn + (str list \<times> analyzer)" where
  "process_file a aggregated_parts f =
     (case read_file_content f of
        Inl e \<Rightarrow> Inl e
      | Inr content \<Rightarrow>
          if content = [] then Inr (aggregated_parts, a)
          else
            case last_parent (fst f) of
              Inl e \<Rightarrow> Inl e
            | Inr anchor \<Rightarrow>
                case relative_to (fst f) anchor of
                  Inl e \<Rightarrow> Inl e
                | Inr relative_path \<Rightarrow>
                    Inr (aggregated_parts @ [file_header (fst f) relative_path @ content],
                         a\<lparr>files_analyzed := files_analyzed a + 1,
                           total_size := total_size a + utf8_len content\<rparr>))"

text \<open>
  The loop: \<open>PermissionError\<close> and \<open>UnicodeDecodeError\<close> skip the file, any other
  exception leaves the function, with the counters as they are at that moment.
\<close>

fun aggregate_loop :: "analyzer \<Rightarrow> str list \<Rightarrow> source_file list \<Rightarrow> (exn + str list) \<times> analyzer" where
  "aggregate_loop a aggregated_parts [] = (Inr aggregated_parts, a)"
| "aggregate_loop a aggregated_parts (f # fs) =
     (case process_file a aggregated_parts f of
        Inr (parts', a') \<Rightarrow> aggregate_loop a' parts' fs
      | Inl e \<Rightarrow>
          if exn_class e = PermissionError \<or> exn_class e = UnicodeDecodeError
          then aggregate_loop a aggregated_parts fs
          else (Inl e, a))"

definition aggregate_file_contents :: "analyzer \<Rightarrow> source_file list \<Rightarrow> (exn + str) \<times> analyzer" where
  "aggregate_file_contents a file_paths =
     (case aggregate_loop a [] file_paths of
        (Inl e, a') \<Rightarrow> (Inl e, a')
      | (Inr aggregated_parts, a') \<Rightarrow> (Inr (str_join (lit ''\<newline>'') aggregated_parts), a'))"

text \<open>\<open>fs\<close> tells what the filesystem has at a path.\<close>

definition analyze_codebase :: "analyzer \<Rightarrow> (path \<Rightarrow> fsobj) \<Rightarrow> str \<Rightarrow> (exn + str) \<times> analyzer" where
  "analyze_codebase a fs directory_path =
     (let directory = Path directory_path
      in case fs directory of
           Missing \<Rightarrow>
             (Inl (Exn FileNotFoundError
                (lit ''Directory '' @ [39] @ directory_path @ [39] @ lit '' does not exist'')), a)
         | NotDirectory \<Rightarrow>
             (Inl (Exn ValueError ([39] @ directory_path @ [39] @ lit '' is not a directory'')), a)
         | Directory entries \<Rightarrow>
             let source_files = find_source_files directory entries
             in if source_files = [] then (Inr [], a)
                else aggregate_file_contents a source_files)"

section \<open>main.py\<close>

text \<open>
  What the Orchestrator's run depends on outside the program: the remote service, the
  filesystem it scans, the outcome of saving the report (creating the output directory,
  opening and writing the file: \<open>None\<close> when all of it succeeds, the exception
  otherwise), and the two readings of the clock, already formatted. What it does to the
  outside is a list of events, in order: the messages that main.py prints (one constructor
  for each \<open>print\<close>, with the values it interpolates), the requests sent, the files
  written. The progress messages of the analyzer and of the client are not recorded.
\<close>

datatype msg =
  Header | Validating | ApiKeyFound | TestingConnection | ConnectionSuccessful
  | ConnectionFailed | TargetDirectory str | NoAnalyzableCode | Suggestions str
  | AnalysisSaved path | SaveWarning str | Interrupted | UnexpectedError str

datatype event = Print msg | Request request | Write path str

record world =
  remote_of :: remote
  fs_of :: "path \<Rightarrow> fsobj"
  save_outcome_of :: "path \<Rightarrow> str \<Rightarrow> exn option"
  stamp_of :: str
  generated_of :: str

definition indent :: str where
  "indent = replicate 24 32"

definition report_path :: "world \<Rightarrow> path" where
  "report_path w =
     path_div (Path (lit ''analysis_output'')) (lit ''analysis_'' @ stamp_of w @ lit ''.txt'')"

definition report_content :: "world \<Rightarrow> str \<Rightarrow> str \<Rightarrow> str" where
  "report_content w suggestions directory_path =
     lit ''Coding Assistant Analysis Report\<newline>'' @
     indent @ equals_line 50 @ lit ''\<newline>'' @
     indent @ lit ''Generated: '' @ generated_of w @ lit ''\<newline>'' @
     indent @ lit ''Analyzed Directory: '' @ directory_path @ lit ''\<newline>'' @
     indent @ equals_line 50 @ lit ''\<newline>'' @
     lit ''\<newline>'' @
     indent @ suggestions @ lit ''\<newline>'' @
     lit ''\<newline>'' @
     indent @ equals_line 50 @ lit ''\<newline>'' @
     indent @ lit ''End of Analysis Report\<newline>'' @
     indent"

definition save_suggestions_to_file :: "world \<Rightarrow> str \<Rightarrow> str \<Rightarrow> (exn + unit) \<times> event list" where
  "save_suggestions_to_file w suggestions directory_path =
     (let filepath = report_path w;
          content = report_content w suggestions directory_path
      in case save_outcome_of w filepath content of
           None \<Rightarrow> (Inr (), [Write filepath content, Print (AnalysisSaved filepath)])
         | Some e \<Rightarrow>
             if is_Exception e then (Inr (), [Print (SaveWarning (exn_str e))])
             else (Inl e, []))"

text \<open>
  \<open>config.api_key\<close> reads a stored field and cannot raise, so the first check of
  \<open>_validate_environment\<close> always passes.
\<close>

definition validate_environment :: "world \<Rightarrow> (exn + bool) \<times> event list" where
  "validate_environment w =
     (let before = [Print Validating, Print ApiKeyFound, Print TestingConnection]
      in case validate_api_key (remote_of w) of
           (Inl e, reqs) \<Rightarrow> (Inl e, before @ map Request reqs)
         | (Inr True, reqs) \<Rightarrow> (Inr True, before @ map Request reqs @ [Print ConnectionSuccessful])
         | (Inr False, reqs) \<Rightarrow> (Inr False, before @ map Request reqs @ [Print ConnectionFailed]))"

text \<open>The body of the \<open>try\<close> in \<open>run\<close>, then \<open>run\<close> with its two handlers.\<close>

definition run_body :: "world \<Rightarrow> analyzer \<Rightarrow> str \<Rightarrow> (exn + int) \<times> event list \<times> analyzer" where
  "run_body w a directory_path =
     (case validate_environment w of
        (Inl e, t1) \<Rightarrow> (Inl e, Print Header # t1, a)
      | (Inr False, t1) \<Rightarrow> (Inr 1, Print Header # t1, a)
      | (Inr True, t1) \<Rightarrow>
          let t2 = Print Header # t1 @ [Print (TargetDirectory directory_path)]
          in case analyze_codebase a (fs_of w) directory_path of
               (Inl e, a') \<Rightarrow> (Inl e, t2, a')
             | (Inr code_context, a') \<Rightarrow>
                 if code_context = [] then (Inr 1, t2 @ [Print NoAnalyzableCode], a')
                 else
                   case get_suggestions (remote_of w) code_context of
                     (Inl e, reqs) \<Rightarrow> (Inl e, t2 @ map Request reqs, a')
                   | (Inr suggestions, reqs) \<Rightarrow>
                       let t3 = t2 @ map Request reqs @ [Print (Suggestions suggestions)]
                       in case save_suggestions_to_file w suggestions directory_path of
                            (Inl e, t4) \<Rightarrow> (Inl e, t3 @ t4, a')
                          | (Inr u, t4) \<Rightarrow> (Inr 0, t3 @ t4, a'))"

definition run :: "world \<Rightarrow> analyzer \<Rightarrow> str \<Rightarrow> (exn + int) \<times> event list \<times> analyzer" where
  "run w a directory_path =
     (case run_body w a directory_path of
        (Inr code, t, a') \<Rightarrow> (Inr code, t, a')
      | (Inl e, t, a') \<Rightarrow>
          if exn_class e = KeyboardInterrupt then (Inr 1, t @ [Print Interrupted], a')
          else if is_Exception e then (Inr 1, t @ [Print (UnexpectedError (exn_str e))], a')
          else (Inl e, t, a'))"

section \<open>The block format as the specification words it\<close>

definition spec_block :: "str \<Rightarrow> str \<Rightarrow> str \<Rightarrow> str" where
  "spec_block relative_path name content =
     lit ''\<newline>'' @ equals_line 80 @ lit ''\<newline>FILE: '' @ relative_path @
     lit ''\<newline>LANGUAGE: '' @ name @ lit ''\<newline>'' @ equals_line 80 @
     lit ''\<newline>\<newline>'' @ content"

text \<open>
  The same block from its first delimiter line on, that is, without the newline it starts
  with: joining the blocks with a newline leaves one empty line between them.
\<close>

definition spec_block_lines :: "str \<Rightarrow> str \<Rightarrow> str \<Rightarrow> str" where
  "spec_block_lines relative_path name content =
     equals_line 80 @ lit ''\<newline>FILE: '' @ relative_path @
     lit ''\<newline>LANGUAGE: '' @ name @ lit ''\<newline>'' @ equals_line 80 @
     lit ''\<newline>\<newline>'' @ content"

text \<open>
  The label of a file: its path seen from its topmost ancestor, \<open>/\<close> for an absolute
  path and \<open>.\<close> for a relative one, so the components of the path joined by \<open>/\<close>.
\<close>

definition label_of :: "path \<Rightarrow> str" where
  "label_of p = str_join (lit ''/'') (components p)"

definition block_of :: "source_file \<Rightarrow> str" where
  "block_of f =
     spec_block (label_of (fst f)) (get_language_from_extension (suffix_of (fst f)))
       (case snd f of Inr content \<Rightarrow> content | Inl e \<Rightarrow> [])"

definition lines_of :: "source_file \<Rightarrow> str" where
  "lines_of f =
     spec_block_lines (label_of (fst f)) (get_language_from_extension (suffix_of (fst f)))
       (case snd f of Inr content \<Rightarrow> content | Inl e \<Rightarrow> [])"

text \<open>
  A file is included when reading it yields text that is neither empty nor larger than
  1 MiB once encoded. Every path that the walk produces has a component.
\<close>

definition included :: "source_file \<Rightarrow> bool" where
  "included f \<longleftrightarrow>
     components (fst f) \<noteq> [] \<and>
     (case snd f of Inr content \<Rightarrow> content \<noteq> [] \<and> utf8_len content \<le> 1024 * 1024 | Inl e \<Rightarrow> False)"

section \<open>Example inputs\<close>

text \<open>A service whose call is interrupted from the keyboard.\<close>

definition interrupted_service :: remote where
  "interrupted_service req = Raised (Exn KeyboardInterrupt [])"

text \<open>A service that fails with an error text naming both the key and the quota.\<close>

definition quota_text :: str where
  "quota_text = lit ''API_KEY '' @ lit ''quota'' @ lit '' exceeded''"

definition key_quota_service :: remote where
  "key_quota_service req = Raised (Exn OtherException quota_text)"

text \<open>A service that answers every request, and one that accepts the key but is over quota.\<close>

definition ok_service :: remote where
  "ok_service req = Returned (Some (lit ''ok''))"

definition quota_only_text :: str where
  "quota_only_text = lit ''429 '' @ lit ''quota'' @ lit '' exceeded''"

definition quota_service :: remote where
  "quota_service req =
     (if fst req = lit ''gemini-2.5-flash'' then Returned (Some (lit ''ok''))
      else Raised (Exn OtherException quota_only_text))"

text \<open>A filesystem with one directory, and the entries and files used below.\<close>

definition fs_with :: "path \<Rightarrow> node list \<Rightarrow> path \<Rightarrow> fsobj" where
  "fs_with directory entries p = (if p = directory then Directory entries else Missing)"

definition a_py :: node where
  "a_py = File (lit ''a.py'') (Inr (lit ''print(1)''))"

definition tree_entries :: "node list" where
  "tree_entries =
     [Dir (lit ''node_modules'') [File (lit ''x.js'') (Inr (lit ''x=1''))],
      File (lit ''a.py'') (Inr (lit ''print(1)'')),
      Dir (lit ''src'')
        [File (lit ''b.JS'') (Inr (lit ''y=2'')), File (lit ''notes.txt'') (Inr (lit ''hello''))]]"

definition big_content :: str where
  "big_content = replicate (1024 * 1024 + 1) 97"

definition file_a :: source_file where
  "file_a = (path_div (Path (lit ''.'')) (lit ''a.py''), Inr (lit ''print(1)''))"

definition file_b :: source_file where
  "file_b = (path_div (path_div (Path (lit ''.'')) (lit ''src'')) (lit ''b.JS''), Inr (lit ''y=2''))"

definition file_big :: source_file where
  "file_big = (path_div (Path (lit ''.'')) (lit ''big.py''), Inr big_content)"

definition disk_full :: exn where
  "disk_full = Exn OSError (lit ''No space left on device'')"

definition example_world :: "remote \<Rightarrow> exn option \<Rightarrow> world" where
  "example_world service saving =
     \<lparr>remote_of = service,
      fs_of = fs_with (Path (lit ''.'')) [a_py],
      save_outcome_of = (\<lambda>p c. saving),
      stamp_of = lit ''20250101_120000'',
      generated_of = lit ''2025-01-01 12:00:00''\<rparr>"

section \<open>Facts about strings\<close>

lemma str_strip_all_space: "(\<forall>c\<in>set s. isspace c) \<Longrightarrow> str_strip s = []"
  by (auto simp: str_strip_def dest: set_dropWhileD)

lemma str_strip_empty_iff: "str_strip s = [] \<longleftrightarrow> (\<forall>c\<in>set s. isspace c)"
proof
  assume "str_strip s = []"
  then have "dropWhile isspace s = [] \<or> dropWhile isspace (rev (dropWhile isspace s)) = []"
    by (simp add: str_strip_def)
  then have "dropWhile isspace s = []"
  proof
    assume "dropWhile isspace (rev (dropWhile isspace s)) = []"
    then have all: "\<forall>c\<in>set (dropWhile isspace s). isspace c"
      by simp
    show ?thesis
    proof (cases "dropWhile isspace s")
      case Nil
      then show ?thesis .
    next
      case (Cons a list)
      then have "\<not> isspace a"
        using hd_dropWhile [of isspace s] by simp
      with all Cons show ?thesis
        by simp
    qed
  qed
  then show "\<forall>c\<in>set s. isspace c"
    by simp
qed (rule str_strip_all_space)

lemma str_lower_append: "str_lower (a @ b) = str_lower a @ str_lower b"
  by (simp add: str_lower_def)

lemma sublist_str_lower: "sublist q s \<Longrightarrow> sublist (str_lower q) (str_lower s)"
proof -
  assume "sublist q s"
  then obtain ps ss where "s = ps @ q @ ss"
    by (auto simp: sublist_def)
  then have "str_lower s = str_lower ps @ str_lower q @ str_lower ss"
    by (simp add: str_lower_append)
  then show ?thesis
    unfolding sublist_def by blast
qed

section \<open>Configuration\<close>

text \<open>
  Claim C10. Constructing the configuration raises (a \<open>ValueError\<close>) exactly when
  \<open>GEMINI_API_KEY\<close> is unset or is the empty string. Any other value passes the presence check and the stored
  credential is the stripped value; for a value of whitespace only, that is the empty
  string.
\<close>

theorem C10_config_api_key:
  "(isl (Config_init environ) \<longleftrightarrow>
      environ (lit ''GEMINI_API_KEY'') = None \<or> environ (lit ''GEMINI_API_KEY'') = Some []) \<and>
   (isl (Config_init environ) \<longrightarrow>
      Config_init environ = Inl (Exn ValueError api_key_missing_msg)) \<and>
   (\<forall>v. environ (lit ''GEMINI_API_KEY'') = Some v \<and> v \<noteq> [] \<longrightarrow>
      Config_init environ = Inr \<lparr>gemini_api_key = str_strip v\<rparr>) \<and>
   (\<forall>v. environ (lit ''GEMINI_API_KEY'') = Some v \<and> v \<noteq> [] \<and> (\<forall>c\<in>set v. isspace c) \<longrightarrow>
      Config_init environ = Inr \<lparr>gemini_api_key = []\<rparr>)"
  by (auto simp: Config_init_def get_gemini_api_key_def str_strip_all_space
           split: option.splits)

theorem C10_config_api_key_witness:
  "Config_init [lit ''GEMINI_API_KEY'' \<mapsto> [32, 9]] = Inr \<lparr>gemini_api_key = []\<rparr> \<and>
   isl (Config_init [lit ''GEMINI_API_KEY'' \<mapsto> []]) \<and>
   isl (Config_init Map.empty)"
proof -
  have "Config_init [lit ''GEMINI_API_KEY'' \<mapsto> [32, 9]] = Inr \<lparr>gemini_api_key = []\<rparr>"
    using C10_config_api_key [of "[lit ''GEMINI_API_KEY'' \<mapsto> [32, 9]]"]
    by (simp add: isspace_def str_strip_def)
  moreover have "isl (Config_init [lit ''GEMINI_API_KEY'' \<mapsto> []])"
    using C10_config_api_key [of "[lit ''GEMINI_API_KEY'' \<mapsto> []]"]
    by simp
  moreover have "isl (Config_init Map.empty)"
    using C10_config_api_key [of "Map.empty"]
    by simp
  ultimately show ?thesis
    by simp
qed

section \<open>The Analysis Client\<close>

lemma str_lower_quota: "str_lower (lit ''quota'') = lit ''quota''"
  by (simp add: str_lower_def lit_def lower_cp_def lower_special_def)

lemma hint_quota:
  assumes "sublist (lit ''quota'') m" and "\<not> sublist (lit ''API_KEY'') (str_upper m)"
  shows "troubleshooting_hint m = quota_hint"
  using assms sublist_str_lower [of "lit ''quota''" m]
  by (simp add: troubleshooting_hint_def str_lower_quota)

lemma hint_key_quota: "troubleshooting_hint quota_text = api_key_hint"
  by (simp add: troubleshooting_hint_def quota_text_def str_upper_def lit_def upper_cp_def
      upper_special_def)

lemma no_quota_hint: "\<not> sublist quota_hint (error_prefix @ quota_text @ api_key_hint)"
proof
  assume "sublist quota_hint (error_prefix @ quota_text @ api_key_hint)"
  then have "set quota_hint \<subseteq> set (error_prefix @ quota_text @ api_key_hint)"
    by (rule set_mono_sublist)
  moreover have "83 \<in> set quota_hint"
    by (simp add: quota_hint_def lit_def)
  ultimately have "83 \<in> set (error_prefix @ quota_text @ api_key_hint)"
    by blast
  then show False
    by (simp add: error_prefix_def quota_text_def api_key_hint_def lit_def)
qed

lemma strip_print1: "str_strip (lit ''print(1)'') \<noteq> []"
  by (simp add: str_strip_def lit_def isspace_def)

text \<open>
  Claim C6. For an input that is empty or consists of whitespace only,
  \<open>get_suggestions\<close> returns the fixed "no content" message and sends no request.
\<close>

theorem C6_blank_input_no_call:
  "code_context = [] \<or> (\<forall>c\<in>set code_context. isspace c) \<Longrightarrow>
   get_suggestions remote code_context = (Inr no_content_msg, [])"
  by (auto simp: get_suggestions_def str_strip_all_space)

theorem C6_blank_input_no_call_witness:
  "get_suggestions interrupted_service [32, 10, 9, 12288] = (Inr no_content_msg, [])"
  using C6_blank_input_no_call [of "[32, 10, 9, 12288]" interrupted_service]
  by (simp add: isspace_def)

text \<open>
  Claim C4, as stated, fails: the handler is \<open>except Exception\<close>, so an interrupt raised
  during the remote call leaves \<open>get_suggestions\<close> (and \<open>run\<close> has a handler for it).
\<close>

theorem C4_interrupt_propagates:
  "fst (get_suggestions interrupted_service (lit ''print(1)'')) = Inl (Exn KeyboardInterrupt [])"
  by (simp add: get_suggestions_def interrupted_service_def is_Exception_def strip_print1)

text \<open>
  Claim C4, amended. For every input string and every outcome of the remote call that is
  a response, an empty response or a raised exception of a class below \<open>Exception\<close>,
  \<open>get_suggestions\<close> returns a string: the banner-wrapped text of a non-empty response,
  or one of the failure messages (no content, no response, or the error message made
  from the exception).
\<close>

theorem C4_get_suggestions_returns_string:
  assumes "\<forall>e. remote (lit ''gemini-2.5-pro'', build_analysis_prompt code_context) = Raised e
             \<longrightarrow> is_Exception e"
  shows "\<exists>s. fst (get_suggestions remote code_context) = Inr s \<and>
           (s = no_content_msg \<or> s = no_response_msg \<or>
            (\<exists>t. remote (lit ''gemini-2.5-pro'', build_analysis_prompt code_context)
                   = Returned (Some t) \<and> t \<noteq> [] \<and> s = format_response t) \<or>
            (\<exists>e. remote (lit ''gemini-2.5-pro'', build_analysis_prompt code_context)
                   = Raised e \<and> s = error_message e))"
  using assms
  by (auto simp: get_suggestions_def Let_def split: outcome.splits option.splits)

theorem C4_get_suggestions_returns_string_witness:
  "fst (get_suggestions key_quota_service (lit ''print(1)''))
     = Inr (error_message (Exn OtherException quota_text))"
  using C4_get_suggestions_returns_string [of key_quota_service "lit ''print(1)''"]
  by (simp add: key_quota_service_def is_Exception_def get_suggestions_def strip_print1)

section \<open>The Content Aggregator\<close>

lemma lit_append: "lit (a @ b) = lit a @ lit b"
  by (simp add: lit_def)

lemma last_parent_ok:
  "components p \<noteq> [] \<Longrightarrow> last_parent p = Inr (p\<lparr>components := []\<rparr>)"
proof -
  assume "components p \<noteq> []"
  then have "0 < length (components p)"
    by simp
  then have "rev [0..<length (components p)] \<noteq> []" and "last (rev [0..<length (components p)]) = 0"
    by (simp_all add: last_rev hd_upt)
  then show ?thesis
    by (simp add: last_parent_def parents_def last_map)
qed

lemma relative_to_anchor:
  "relative_to p (p\<lparr>components := []\<rparr>) = Inr \<lparr>is_absolute = False, components = components p\<rparr>"
  by (simp add: relative_to_def)

lemma path_str_relative:
  "cs \<noteq> [] \<Longrightarrow> path_str \<lparr>is_absolute = False, components = cs\<rparr> = str_join (lit ''/'') cs"
  by (simp add: path_str_def)

lemma header_block:
  "components p \<noteq> [] \<Longrightarrow>
   file_header p \<lparr>is_absolute = False, components = components p\<rparr> @ content
     = spec_block (label_of p) (get_language_from_extension (suffix_of p)) content"
  by (simp add: file_header_def spec_block_def label_of_def path_str_relative lit_def)

lemma process_file_included:
  assumes "included f"
  shows "process_file a ps f =
           Inr (ps @ [block_of f],
                a\<lparr>files_analyzed := files_analyzed a + 1,
                  total_size := total_size a + utf8_len (projr (snd f))\<rparr>)"
proof -
  obtain p r where f: "f = (p, r)" by (cases f)
  from assms f obtain content where r: "r = Inr content"
    and c: "content \<noteq> []" "utf8_len content \<le> 1024 * 1024" and p: "components p \<noteq> []"
    by (auto simp: included_def split: sum.splits)
  show ?thesis
    using c p
    by (simp add: f r process_file_def read_file_content_def last_parent_ok
        relative_to_anchor header_block block_of_def)
qed

lemma process_file_not_included:
  assumes "\<not> included f" and "process_file a ps f = Inr (ps', a')"
  shows "ps' = ps \<and> a' = a"
proof -
  obtain p r where f: "f = (p, r)" by (cases f)
  show ?thesis
  proof (cases r)
    case (Inl e)
    with assms f show ?thesis
      by (simp add: process_file_def read_file_content_def)
  next
    case (Inr content)
    show ?thesis
    proof (cases "content = [] \<or> utf8_len content > 1024 * 1024")
      case True
      with assms f Inr show ?thesis
        by (auto simp: process_file_def read_file_content_def)
    next
      case False
      with assms(1) f Inr have "components p = []"
        by (auto simp: included_def)
      then have "last_parent p = Inl (Exn IndexError [])"
        by (simp add: last_parent_def parents_def)
      with assms(2) f Inr False show ?thesis
        by (auto simp: process_file_def read_file_content_def)
    qed
  qed
qed

lemma aggregate_loop_Inr:
  "fst (aggregate_loop a ps fps) = Inr ps' \<Longrightarrow> ps' = ps @ map block_of (filter included fps)"
proof (induction fps arbitrary: a ps)
  case Nil
  then show ?case by simp
next
  case (Cons f fps)
  show ?case
  proof (cases "included f")
    case True
    with Cons.prems have "fst (aggregate_loop
        (a\<lparr>files_analyzed := files_analyzed a + 1,
           total_size := total_size a + utf8_len (projr (snd f))\<rparr>)
        (ps @ [block_of f]) fps) = Inr ps'"
      by (simp add: process_file_included)
    then have "ps' = (ps @ [block_of f]) @ map block_of (filter included fps)"
      by (rule Cons.IH)
    with True show ?thesis
      by simp
  next
    case False
    show ?thesis
    proof (cases "process_file a ps f")
      case (Inl e)
      with Cons False show ?thesis
        by (auto split: if_splits)
    next
      case (Inr x)
      obtain ps1 a1 where x: "x = (ps1, a1)" by (cases x)
      with Inr False have "ps1 = ps \<and> a1 = a"
        using process_file_not_included by blast
      with Cons Inr x False show ?thesis
        by simp
    qed
  qed
qed

lemma aggregate_loop_included:
  "\<forall>f\<in>set fps. included f \<Longrightarrow> fst (aggregate_loop a ps fps) = Inr (ps @ map block_of fps)"
  by (induction fps arbitrary: a ps) (simp_all add: process_file_included)

lemma oversized_skipped:
  "utf8_len content > 1024 * 1024 \<Longrightarrow> process_file a ps (p, Inr content) = Inr (ps, a)"
  by (simp add: process_file_def read_file_content_def)

lemma loop_oversized:
  "utf8_len content > 1024 * 1024 \<Longrightarrow>
   aggregate_loop a ps (xs @ (p, Inr content) # ys) = aggregate_loop a ps (xs @ ys)"
  by (induction xs arbitrary: a ps) (auto simp: oversized_skipped split: sum.splits)

lemma process_file_indep:
  "map_sum id fst (process_file a1 ps f) = map_sum id fst (process_file a2 ps f)"
  by (simp add: process_file_def split: sum.splits)

lemma aggregate_loop_indep:
  "fst (aggregate_loop a1 ps fps) = fst (aggregate_loop a2 ps fps)"
proof (induction fps arbitrary: a1 a2 ps)
  case Nil
  show ?case by simp
next
  case (Cons f fps)
  show ?case
  proof (cases "process_file a1 ps f")
    case (Inl e)
    with process_file_indep [of a1 ps f a2] have "process_file a2 ps f = Inl e"
      by (cases "process_file a2 ps f") simp_all
    with Inl Cons.IH [of a1 ps a2] show ?thesis
      by simp
  next
    case (Inr x)
    obtain ps1 b1 where x: "x = (ps1, b1)" by (cases x)
    with Inr process_file_indep [of a1 ps f a2] obtain b2 where "process_file a2 ps f = Inr (ps1, b2)"
      by (cases "process_file a2 ps f") auto
    with Inr x Cons.IH [of b1 ps1 b2] show ?thesis
      by simp
  qed
qed

lemma aggregate_indep:
  "fst (aggregate_file_contents a1 fps) = fst (aggregate_file_contents a2 fps)"
  using aggregate_loop_indep [of a1 "[]" fps a2]
  by (cases "aggregate_loop a1 [] fps"; cases "aggregate_loop a2 [] fps")
     (auto simp: aggregate_file_contents_def split: sum.splits)

lemma walk_components:
  "(root, files) \<in> set (os_walk keep dirpath entries) \<Longrightarrow>
     \<exists>ds. components root = components dirpath @ ds \<and> (\<forall>d\<in>set ds. keep d)"
  "(root, files) \<in> set (walk_dirs keep dirpath entries) \<Longrightarrow>
     \<exists>ds. components root = components dirpath @ ds \<and> (\<forall>d\<in>set ds. keep d)"
proof (induction keep dirpath entries and keep dirpath entries rule: os_walk_walk_dirs.induct)
  case (1 keep dirpath entries)
  then show ?case by auto
next
  case (2 keep dirpath)
  then show ?case by simp
next
  case (3 keep dirpath name r es)
  then show ?case by simp
next
  case (4 keep dirpath name sub es)
  show ?case
  proof (cases "keep name \<and> (root, files) \<in> set (os_walk keep (path_div dirpath name) sub)")
    case True
    with 4 obtain ds where "components root = components (path_div dirpath name) @ ds"
      and "\<forall>d\<in>set ds. keep d"
      by blast
    with True have "components root = components dirpath @ (name # ds) \<and> (\<forall>d\<in>set (name # ds). keep d)"
      by (simp add: path_div_def)
    then show ?thesis by blast
  next
    case False
    with 4 show ?thesis by (auto split: if_splits)
  qed
qed

lemma find_source_files_components:
  assumes "f \<in> set (find_source_files directory entries)"
  shows "\<exists>ds name. components (fst f) = components directory @ ds @ [name] \<and>
           (\<forall>d\<in>set ds. d \<notin> set IGNORED_DIRECTORIES)"
proof -
  from assms obtain root files where w: "(root, files) \<in> set (os_walk (\<lambda>d. d \<notin> set IGNORED_DIRECTORIES) directory entries)"
    and f: "f \<in> set (source_files_in root files)"
    by (auto simp: find_source_files_def)
  from f obtain name where "components (fst f) = components root @ [name]"
    by (auto simp: source_files_in_def path_div_def)
  with walk_components(1) [OF w] show ?thesis
    by auto
qed

lemma block_lines: "block_of f = lit ''\<newline>'' @ lines_of f"
  by (simp add: block_of_def lines_of_def spec_block_def spec_block_lines_def)

lemma join_shift:
  "xs \<noteq> [] \<Longrightarrow> str_join sep (map (\<lambda>x. sep @ g x) xs) = sep @ str_join (sep @ sep) (map g xs)"
proof (induction xs)
  case Nil
  then show ?case by simp
next
  case (Cons x xs)
  then show ?case by (cases xs) simp_all
qed

lemma in_str_join: "x \<in> set ps \<Longrightarrow> set x \<subseteq> set (str_join sep ps)"
  by (induction sep ps rule: str_join.induct) auto

lemma equals_in_block: "61 \<in> set (spec_block r n c)"
  by (simp add: spec_block_def equals_line_def)

lemma not_space_61: "\<not> isspace 61"
  by (simp add: isspace_def)

lemma block_not_blank: "str_strip (spec_block r n c) \<noteq> []"
  using equals_in_block [of r n c] not_space_61
  by (auto simp: str_strip_empty_iff)

lemma block_nonempty: "spec_block r n c \<noteq> []"
  by (simp add: spec_block_def lit_def)

lemma utf8_len_replicate: "utf8_len (replicate n c) = n * utf8_size c"
  by (induction n) (simp_all add: utf8_len_def)

lemma big_len: "utf8_len big_content > 1024 * 1024"
  unfolding big_content_def utf8_len_replicate by (simp add: utf8_size_def)

text \<open>The file \<open>a.py\<close> with the content \<open>print(1)\<close>, in any directory.\<close>

lemma suffix_a_py: "suffix_of (path_div p (lit ''a.py'')) = lit ''.py''"
  by (simp add: suffix_of_def path_div_def path_name_def rfind_def lit_def)

lemma is_source_a_py: "is_source (path_div p (lit ''a.py''))"
  unfolding is_source_def suffix_a_py
  by (simp add: str_lower_def SUPPORTED_EXTENSIONS_def lit_def lower_cp_def lower_special_def)

lemma language_py: "get_language_from_extension (lit ''.py'') = lit ''Python''"
  by (simp add: get_language_from_extension_def language_map_def str_lower_def lit_def
      lower_cp_def lower_special_def)

lemma utf8_len_print1: "utf8_len (lit ''print(1)'') = 8"
  by (simp add: utf8_len_def utf8_size_def lit_def)

lemma included_a_py: "included (path_div p (lit ''a.py''), Inr (lit ''print(1)''))"
  by (simp add: included_def utf8_len_print1 path_div_def) (simp add: lit_def)

lemma block_a_py:
  "block_of (path_div p (lit ''a.py''), Inr (lit ''print(1)''))
     = spec_block (str_join (lit ''/'') (components p @ [lit ''a.py''])) (lit ''Python'')
         (lit ''print(1)'')"
  by (simp add: block_of_def suffix_a_py language_py label_of_def) (simp add: path_div_def)

lemma find_single:
  "find_source_files directory [File (lit ''a.py'') r] = [(path_div directory (lit ''a.py''), r)]"
  by (simp add: find_source_files_def source_files_in_def is_source_a_py)

lemma single_file_scan:
  assumes "fs (Path d) = Directory [File (lit ''a.py'') (Inr (lit ''print(1)''))]"
  shows "fst (analyze_codebase a fs d)
           = Inr (spec_block (str_join (lit ''/'') (components (Path d) @ [lit ''a.py'']))
                   (lit ''Python'') (lit ''print(1)''))"
proof -
  let ?f = "(path_div (Path d) (lit ''a.py''), Inr (lit ''print(1)''))"
  have "fst (aggregate_loop a [] [?f]) = Inr ([] @ map block_of [?f])"
    by (rule aggregate_loop_included) (simp add: included_a_py)
  then have "fst (aggregate_file_contents a [?f]) = Inr (block_of ?f)"
    by (cases "aggregate_loop a [] [?f]") (simp add: aggregate_file_contents_def)
  with assms show ?thesis
    by (simp add: analyze_codebase_def find_single block_a_py)
qed

lemma comps_dot: "components (Path (lit ''.'')) = []"
  by (simp add: Path_def lit_def)

lemma comps_proj: "components (Path (lit ''/tmp/proj'')) = [lit ''tmp'', lit ''proj'']"
  by (simp add: Path_def lit_def)

lemma comps_build: "components (Path (lit ''build'')) = [lit ''build'']"
  by (simp add: Path_def lit_def)

lemma scan_dot:
  "fst (analyze_codebase a (fs_with (Path (lit ''.'')) [a_py]) (lit ''.''))
     = Inr (spec_block (lit ''a.py'') (lit ''Python'') (lit ''print(1)''))"
  using single_file_scan [of "fs_with (Path (lit ''.'')) [a_py]" "lit ''.''" a]
  by (simp add: fs_with_def a_py_def comps_dot)

text \<open>The example tree: \<open>node_modules\<close> is pruned, \<open>notes.txt\<close> is not a source file.\<close>

lemma included_a: "included file_a"
  unfolding file_a_def by (rule included_a_py)

lemma included_b: "included file_b"
  by (simp add: included_def file_b_def path_div_def utf8_len_def utf8_size_def lit_def)

lemma find_tree: "find_source_files (Path (lit ''.'')) tree_entries = [file_a, file_b]"
  by (simp add: find_source_files_def tree_entries_def IGNORED_DIRECTORIES_def source_files_in_def
      is_source_def suffix_of_def path_div_def path_name_def rfind_def str_lower_def lower_cp_def
      lower_special_def SUPPORTED_EXTENSIONS_def lit_def file_a_def file_b_def Path_def)

lemma scan_tree:
  "fst (analyze_codebase a (fs_with (Path (lit ''.'')) tree_entries) (lit ''.''))
     = Inr (str_join (lit ''\<newline>'') [block_of file_a, block_of file_b])"
proof -
  have "fst (aggregate_loop a [] [file_a, file_b]) = Inr ([] @ map block_of [file_a, file_b])"
    by (rule aggregate_loop_included) (simp add: included_a included_b)
  then have "fst (aggregate_file_contents a [file_a, file_b])
      = Inr (str_join (lit ''\<newline>'') [block_of file_a, block_of file_b])"
    by (cases "aggregate_loop a [] [file_a, file_b]") (simp add: aggregate_file_contents_def)
  then show ?thesis
    by (simp add: analyze_codebase_def fs_with_def find_tree)
qed

text \<open>A non-empty aggregate always holds a delimiter line, so it is never blank.\<close>

lemma analyze_not_blank:
  assumes "fst (analyze_codebase a fs d) = Inr cc" and "cc \<noteq> []"
  shows "str_strip cc \<noteq> []"
proof (cases "fs (Path d)")
  case Missing
  with assms show ?thesis by (simp add: analyze_codebase_def)
next
  case NotDirectory
  with assms show ?thesis by (simp add: analyze_codebase_def)
next
  case (Directory entries)
  let ?sf = "find_source_files (Path d) entries"
  from assms Directory have agg: "fst (aggregate_file_contents a ?sf) = Inr cc"
    by (auto simp: analyze_codebase_def Let_def split: if_splits)
  obtain res a' where loop: "aggregate_loop a [] ?sf = (res, a')"
    by (cases "aggregate_loop a [] ?sf")
  with agg obtain ps where res: "res = Inr ps" and cc: "cc = str_join (lit ''\<newline>'') ps"
    by (cases res) (auto simp: aggregate_file_contents_def)
  from loop res have ps: "ps = [] @ map block_of (filter included ?sf)"
    using aggregate_loop_Inr [of a "[]" ?sf ps] by simp
  from cc assms(2) have "ps \<noteq> []"
    by auto
  then obtain b where b: "b \<in> set ps"
    by (cases ps) auto
  with ps obtain f where "b = block_of f"
    by auto
  then have "61 \<in> set b"
    by (simp add: block_of_def equals_in_block)
  with b cc have "61 \<in> set cc"
    using in_str_join [of b ps "lit ''\<newline>''"] by blast
  with not_space_61 show ?thesis
    by (auto simp: str_strip_empty_iff)
qed

text \<open>
  Claim C1. For every list of included files, and so for every non-empty one, the
  aggregated text is the per-file blocks, each of the form the specification gives (with
  the path seen from its topmost ancestor as the relative path), joined with single
  newlines. As every block starts with a newline, this is a newline followed by the blocks
  from their first delimiter line on, joined with one empty line.
\<close>

theorem C1_aggregate_is_joined_blocks:
  assumes "\<forall>f\<in>set file_paths. included f"
  shows "fst (aggregate_file_contents a file_paths)
           = Inr (str_join (lit ''\<newline>'') (map block_of file_paths)) \<and>
         (file_paths \<noteq> [] \<longrightarrow>
            fst (aggregate_file_contents a file_paths)
              = Inr (lit ''\<newline>'' @
                     str_join (lit ''\<newline>'' @ lit ''\<newline>'') (map lines_of file_paths)))"
proof -
  have 1: "fst (aggregate_file_contents a file_paths)
           = Inr (str_join (lit ''\<newline>'') (map block_of file_paths))"
    using aggregate_loop_included [OF assms, of a "[]"]
    by (cases "aggregate_loop a [] file_paths") (simp add: aggregate_file_contents_def)
  have eq: "map block_of file_paths = map (\<lambda>f. lit ''\<newline>'' @ lines_of f) file_paths"
    by (simp add: block_lines)
  have "file_paths \<noteq> [] \<longrightarrow>
      str_join (lit ''\<newline>'') (map block_of file_paths)
        = lit ''\<newline>'' @ str_join (lit ''\<newline>'' @ lit ''\<newline>'') (map lines_of file_paths)"
    unfolding eq using join_shift [of file_paths "lit ''\<newline>''" lines_of] by blast
  with 1 show ?thesis
    by simp
qed

theorem C1_aggregate_is_joined_blocks_witness:
  "fst (aggregate_file_contents CodeAnalyzer_init [file_a, file_b])
     = Inr (block_of file_a @ lit ''\<newline>'' @ block_of file_b) \<and>
   fst (aggregate_file_contents CodeAnalyzer_init [file_a, file_b])
     = Inr (lit ''\<newline>'' @ lines_of file_a @ lit ''\<newline>'' @ lit ''\<newline>'' @ lines_of file_b)"
  using C1_aggregate_is_joined_blocks [of "[file_a, file_b]" CodeAnalyzer_init]
        included_a included_b
  by (simp add: block_lines)

text \<open>
  Claim C2, as stated, fails: the label is the path of the file seen from its topmost
  ancestor, not from the scanned directory. Scanning \<open>/tmp/proj\<close> labels the file
  \<open>tmp/proj/a.py\<close>.
\<close>

theorem C2_label_keeps_directory:
  "fst (analyze_codebase CodeAnalyzer_init (fs_with (Path (lit ''/tmp/proj'')) [a_py])
          (lit ''/tmp/proj''))
     = Inr (spec_block (lit ''tmp/proj/a.py'') (lit ''Python'') (lit ''print(1)'')) \<and>
   spec_block (lit ''tmp/proj/a.py'') (lit ''Python'') (lit ''print(1)'') \<noteq>
   spec_block (lit ''a.py'') (lit ''Python'') (lit ''print(1)'')"
  using single_file_scan [of "fs_with (Path (lit ''/tmp/proj'')) [a_py]" "lit ''/tmp/proj''"
      CodeAnalyzer_init]
  by (simp add: fs_with_def a_py_def comps_proj spec_block_def) (simp add: lit_def)

text \<open>
  Claim C2, amended. For a scanned directory that contains exactly one file, named
  \<open>a.py\<close>, with the content \<open>print(1)\<close>, the aggregated text is exactly one block:
  its \<open>FILE:\<close> label is the components of the directory's path followed by \<open>a.py\<close>,
  joined by \<open>/\<close> (so \<open>a.py\<close> when the directory is given as \<open>.\<close>), its
  \<open>LANGUAGE:\<close> label is \<open>Python\<close>, and \<open>print(1)\<close> follows.
\<close>

theorem C2_single_file_block:
  assumes "fs (Path d) = Directory [File (lit ''a.py'') (Inr (lit ''print(1)''))]"
  shows "fst (analyze_codebase a fs d)
           = Inr (spec_block (str_join (lit ''/'') (components (Path d) @ [lit ''a.py'']))
                   (lit ''Python'') (lit ''print(1)''))"
  using assms by (rule single_file_scan)

theorem C2_single_file_block_witness:
  "fst (analyze_codebase CodeAnalyzer_init (fs_with (Path (lit ''.'')) [a_py]) (lit ''.''))
     = Inr (spec_block (lit ''a.py'') (lit ''Python'') (lit ''print(1)''))"
  using C2_single_file_block [of "fs_with (Path (lit ''.'')) [a_py]" "lit ''.''" CodeAnalyzer_init]
  by (simp add: fs_with_def a_py_def comps_dot)

text \<open>
  Claim C3. A candidate file whose decoded content is longer than 1 MiB in UTF-8 changes
  nothing: the aggregation of a list that holds it gives the text, the counters and the
  outcome that the list without it gives, so the files after it are processed as before.
\<close>

theorem C3_oversized_file_skipped:
  "utf8_len content > 1024 * 1024 \<Longrightarrow>
   aggregate_file_contents a (xs @ (p, Inr content) # ys) = aggregate_file_contents a (xs @ ys)"
  by (simp add: aggregate_file_contents_def loop_oversized)

theorem C3_oversized_file_skipped_witness:
  "aggregate_file_contents CodeAnalyzer_init [file_a, file_big, file_b]
     = aggregate_file_contents CodeAnalyzer_init [file_a, file_b] \<and>
   aggregate_file_contents CodeAnalyzer_init [file_big] = (Inr [], CodeAnalyzer_init)"
  using C3_oversized_file_skipped [of big_content CodeAnalyzer_init "[file_a]" "fst file_big"
          "[file_b]"]
        C3_oversized_file_skipped [of big_content CodeAnalyzer_init "[]" "fst file_big" "[]"]
        big_len
  by (simp add: file_big_def aggregate_file_contents_def)

text \<open>
  Claim C7, as stated, fails: only the subdirectories met during the walk are pruned.
  When the scanned directory itself is named \<open>build\<close>, the files beneath it are
  aggregated.
\<close>

theorem C7_ignored_name_at_root:
  "lit ''build'' \<in> set IGNORED_DIRECTORIES \<and>
   fst (analyze_codebase CodeAnalyzer_init (fs_with (Path (lit ''build'')) [a_py]) (lit ''build''))
     = Inr (spec_block (lit ''build/a.py'') (lit ''Python'') (lit ''print(1)''))"
  using single_file_scan [of "fs_with (Path (lit ''build'')) [a_py]" "lit ''build''"
      CodeAnalyzer_init]
  by (simp add: fs_with_def a_py_def comps_build IGNORED_DIRECTORIES_def) (simp add: lit_def)

text \<open>
  Claim C7, amended. The aggregated text of a scan is made of the blocks of candidate
  files only, and between the scanned directory and a candidate file there is no
  directory whose name is in the ignore set: no file beneath an ignored directory that
  lies below the scanned directory appears, whatever its extension.
\<close>

theorem C7_ignored_directories_pruned:
  assumes "fs (Path d) = Directory entries" and "fst (analyze_codebase a fs d) = Inr aggregated"
  shows "aggregated = str_join (lit ''\<newline>'')
                  (map block_of (filter included (find_source_files (Path d) entries))) \<and>
         (\<forall>f\<in>set (find_source_files (Path d) entries).
            \<exists>ds name. components (fst f) = components (Path d) @ ds @ [name] \<and>
                       (\<forall>x\<in>set ds. x \<notin> set IGNORED_DIRECTORIES))"
proof -
  let ?sf = "find_source_files (Path d) entries"
  have "aggregated = str_join (lit ''\<newline>'') (map block_of (filter included ?sf))"
  proof (cases "?sf = []")
    case True
    with assms show ?thesis
      by (simp add: analyze_codebase_def)
  next
    case False
    with assms have agg: "fst (aggregate_file_contents a ?sf) = Inr aggregated"
      by (simp add: analyze_codebase_def)
    obtain res a' where loop: "aggregate_loop a [] ?sf = (res, a')"
      by (cases "aggregate_loop a [] ?sf")
    with agg obtain ps where res: "res = Inr ps"
      and joined: "aggregated = str_join (lit ''\<newline>'') ps"
      by (cases res) (auto simp: aggregate_file_contents_def)
    from loop res have "ps = [] @ map block_of (filter included ?sf)"
      using aggregate_loop_Inr [of a "[]" ?sf ps] by simp
    with joined show ?thesis
      by simp
  qed
  then show ?thesis
    using find_source_files_components by blast
qed

theorem C7_ignored_directories_pruned_witness:
  "find_source_files (Path (lit ''.'')) tree_entries = [file_a, file_b] \<and>
   str_join (lit ''\<newline>'') [block_of file_a, block_of file_b]
     = str_join (lit ''\<newline>'')
         (map block_of (filter included (find_source_files (Path (lit ''.'')) tree_entries)))"
proof -
  have "fs_with (Path (lit ''.'')) tree_entries (Path (lit ''.'')) = Directory tree_entries"
    by (simp add: fs_with_def)
  from C7_ignored_directories_pruned [OF this scan_tree [of CodeAnalyzer_init]] find_tree
  show ?thesis
    by blast
qed

text \<open>
  Claim C8. For a fixed filesystem state the aggregated text (or the exception raised)
  does not depend on the counters of the analyzer: two scans of the same directory give
  the same text, and so does a second scan by the instance that has made the first.
\<close>

theorem C8_scan_deterministic:
  "fst (analyze_codebase a1 fs d) = fst (analyze_codebase a2 fs d) \<and>
   fst (analyze_codebase (snd (analyze_codebase a fs d)) fs d) = fst (analyze_codebase a fs d)"
proof -
  have "\<And>a1 a2. fst (analyze_codebase a1 fs d) = fst (analyze_codebase a2 fs d)"
    by (simp add: analyze_codebase_def Let_def aggregate_indep split: fsobj.splits)
  then show ?thesis
    by blast
qed

section \<open>The Orchestrator\<close>

lemma sublist_end: "sublist s (a @ b @ s)"
  using sublist_appendI [of s "a @ b" "[]"] by simp

lemma report_contains: "sublist s (report_content w s d)"
proof -
  have "\<exists>pre post. report_content w s d = pre @ s @ post"
    unfolding report_content_def
    by (metis append.assoc)
  then show ?thesis
    by (auto simp: sublist_def)
qed

lemma lit_ok_nonempty: "lit ''ok'' \<noteq> []"
  by (simp add: lit_def)

lemma pro_not_flash: "lit ''gemini-2.5-pro'' \<noteq> lit ''gemini-2.5-flash''"
  by (simp add: lit_def)

lemma no_key_in_quota_only: "\<not> sublist (lit ''API_KEY'') (str_upper quota_only_text)"
proof
  assume "sublist (lit ''API_KEY'') (str_upper quota_only_text)"
  then have "set (lit ''API_KEY'') \<subseteq> set (str_upper quota_only_text)"
    by (rule set_mono_sublist)
  moreover have "95 \<in> set (lit ''API_KEY'')"
    by (simp add: lit_def)
  ultimately have "95 \<in> set (str_upper quota_only_text)"
    by blast
  then show False
    by (simp add: quota_only_text_def str_upper_def lit_def upper_cp_def upper_special_def)
qed

text \<open>
  A run whose environment check passes, whose scan gives a non-empty text and whose
  analysis and saving both return ends with exit code 0; nothing is written before the
  saving step.
\<close>

lemma run_completes:
  assumes v: "fst (validate_api_key (remote_of w)) = Inr True"
    and an: "fst (analyze_codebase a (fs_of w) d) = Inr cc" and ne: "cc \<noteq> []"
    and gs: "fst (get_suggestions (remote_of w) cc) = Inr s"
    and sv: "save_suggestions_to_file w s d = (Inr (), t4)"
  shows "\<exists>t. fst (run w a d) = Inr 0 \<and> fst (snd (run w a d)) = t @ Print (Suggestions s) # t4 \<and>
             (\<forall>p c. Write p c \<notin> set t)"
proof -
  obtain reqs1 where v': "validate_api_key (remote_of w) = (Inr True, reqs1)"
    using v by (cases "validate_api_key (remote_of w)") simp
  obtain a' where an': "analyze_codebase a (fs_of w) d = (Inr cc, a')"
    using an by (cases "analyze_codebase a (fs_of w) d") simp
  obtain reqs2 where gs': "get_suggestions (remote_of w) cc = (Inr s, reqs2)"
    using gs by (cases "get_suggestions (remote_of w) cc") simp
  let ?t = "(Print Header # ([Print Validating, Print ApiKeyFound, Print TestingConnection] @
         map Request reqs1 @ [Print ConnectionSuccessful]) @ [Print (TargetDirectory d)]) @
         map Request reqs2"
  have "run_body w a d = (Inr 0, ?t @ Print (Suggestions s) # t4, a')"
    using ne by (simp add: run_body_def validate_environment_def v' an' gs' sv)
  then have "fst (run w a d) = Inr 0 \<and> fst (snd (run w a d)) = ?t @ Print (Suggestions s) # t4"
    by (simp add: run_def)
  moreover have "\<forall>p c. Write p c \<notin> set ?t"
    by auto
  ultimately show ?thesis
    by blast
qed

text \<open>
  Claim C5, as stated, fails: the keyword \<open>API_KEY\<close> is tested first, so an error text
  that contains both it and \<open>quota\<close> gets the hint about the key and not the one about
  the quota.
\<close>

theorem C5_key_hint_shadows_quota:
  "sublist (lit ''quota'') quota_text \<and>
   fst (get_suggestions key_quota_service (lit ''print(1)''))
     = Inr (error_prefix @ quota_text @ api_key_hint) \<and>
   \<not> sublist quota_hint (error_prefix @ quota_text @ api_key_hint)"
proof -
  have "sublist (lit ''quota'') quota_text"
    unfolding quota_text_def by (rule sublist_appendI)
  moreover have "fst (get_suggestions key_quota_service (lit ''print(1)''))
      = Inr (error_prefix @ quota_text @ api_key_hint)"
    by (simp add: get_suggestions_def key_quota_service_def is_Exception_def strip_print1
        error_message_def hint_key_quota)
  ultimately show ?thesis
    using no_quota_hint by blast
qed

text \<open>
  Claim C5, amended. In a run that has passed the environment check and scanned a
  non-empty text: if the remote call raises an exception of a class below \<open>Exception\<close>
  whose text contains \<open>quota\<close> and whose text converted by \<open>str.upper()\<close> does not
  contain \<open>API_KEY\<close> (the test the code makes first; the conversion also turns some
  letters outside ASCII into ASCII ones, so this asks more than that no spelling of
  \<open>API_KEY\<close> in upper or lower case letters occurs), then \<open>get_suggestions\<close> returns
  the error message, which contains the hint about the quota; and when saving succeeds,
  the run ends with exit code 0 and has written the report file, whose content contains
  the returned string verbatim.
\<close>

theorem C5_quota_error_reported:
  assumes v: "fst (validate_api_key (remote_of w)) = Inr True"
    and an: "fst (analyze_codebase a (fs_of w) d) = Inr cc" and ne: "cc \<noteq> []"
    and rs: "remote_of w (lit ''gemini-2.5-pro'', build_analysis_prompt cc) = Raised e"
    and ex: "is_Exception e"
    and q: "sublist (lit ''quota'') (exn_str e)"
    and k: "\<not> sublist (lit ''API_KEY'') (str_upper (exn_str e))"
    and wr: "save_outcome_of w (report_path w) (report_content w (error_message e) d) = None"
  shows "fst (get_suggestions (remote_of w) cc) = Inr (error_message e) \<and>
         sublist quota_hint (error_message e) \<and>
         fst (run w a d) = Inr 0 \<and>
         Write (report_path w) (report_content w (error_message e) d)
           \<in> set (fst (snd (run w a d))) \<and>
         sublist (error_message e) (report_content w (error_message e) d)"
proof -
  let ?s = "error_message e"
  have nb: "str_strip cc \<noteq> []"
    using an ne by (rule analyze_not_blank)
  have gs: "fst (get_suggestions (remote_of w) cc) = Inr ?s"
    using nb rs ex by (simp add: get_suggestions_def)
  have hint: "sublist quota_hint ?s"
    using hint_quota [OF q k] sublist_end [of quota_hint error_prefix "exn_str e"]
    by (simp add: error_message_def)
  have "save_suggestions_to_file w ?s d =
      (Inr (), [Write (report_path w) (report_content w ?s d), Print (AnalysisSaved (report_path w))])"
    using wr by (simp add: save_suggestions_to_file_def Let_def)
  from run_completes [OF v an ne gs this]
  have "fst (run w a d) = Inr 0 \<and>
      Write (report_path w) (report_content w ?s d) \<in> set (fst (snd (run w a d)))"
    by auto
  with gs hint report_contains show ?thesis
    by simp
qed

theorem C5_quota_error_reported_witness:
  "sublist quota_hint (error_message (Exn OtherException quota_only_text)) \<and>
   fst (run (example_world quota_service None) CodeAnalyzer_init (lit ''.'')) = Inr 0 \<and>
   Write (report_path (example_world quota_service None))
     (report_content (example_world quota_service None)
        (error_message (Exn OtherException quota_only_text)) (lit ''.''))
     \<in> set (fst (snd (run (example_world quota_service None) CodeAnalyzer_init (lit ''.''))))"
proof -
  let ?w = "example_world quota_service None"
  let ?cc = "spec_block (lit ''a.py'') (lit ''Python'') (lit ''print(1)'')"
  let ?e = "Exn OtherException quota_only_text"
  have v: "fst (validate_api_key (remote_of ?w)) = Inr True"
    by (simp add: example_world_def validate_api_key_def quota_service_def lit_ok_nonempty)
  have an: "fst (analyze_codebase CodeAnalyzer_init (fs_of ?w) (lit ''.'')) = Inr ?cc"
    by (simp add: example_world_def scan_dot)
  have rs: "remote_of ?w (lit ''gemini-2.5-pro'', build_analysis_prompt ?cc) = Raised ?e"
    by (simp add: example_world_def quota_service_def pro_not_flash)
  have ex: "is_Exception ?e"
    by (simp add: is_Exception_def)
  have q: "sublist (lit ''quota'') (exn_str ?e)"
    by (simp add: quota_only_text_def sublist_appendI)
  have k: "\<not> sublist (lit ''API_KEY'') (str_upper (exn_str ?e))"
    by (simp add: no_key_in_quota_only)
  have wr: "save_outcome_of ?w (report_path ?w) (report_content ?w (error_message ?e) (lit ''.''))
      = None"
    by (simp add: example_world_def)
  from C5_quota_error_reported [OF v an block_nonempty rs ex q k wr] show ?thesis
    by simp
qed

text \<open>
  Claim C9. When the analysis phase has completed (the environment check passed, the scan
  gave a non-empty text and \<open>get_suggestions\<close> returned a string) and saving the report
  fails, the failure is caught: the last thing the run does is print the warning with the
  text of the exception, no file is written, and the exit code is 0.
\<close>

theorem C9_save_failure_exit_zero:
  assumes v: "fst (validate_api_key (remote_of w)) = Inr True"
    and an: "fst (analyze_codebase a (fs_of w) d) = Inr cc" and ne: "cc \<noteq> []"
    and gs: "fst (get_suggestions (remote_of w) cc) = Inr s"
    and wr: "save_outcome_of w (report_path w) (report_content w s d) = Some e"
    and ex: "is_Exception e"
  shows "fst (run w a d) = Inr 0 \<and>
         last (fst (snd (run w a d))) = Print (SaveWarning (exn_str e)) \<and>
         Write p c \<notin> set (fst (snd (run w a d)))"
proof -
  have "save_suggestions_to_file w s d = (Inr (), [Print (SaveWarning (exn_str e))])"
    using wr ex by (simp add: save_suggestions_to_file_def)
  from run_completes [OF v an ne gs this] show ?thesis
    by auto
qed

theorem C9_save_failure_exit_zero_witness:
  "fst (run (example_world ok_service (Some disk_full)) CodeAnalyzer_init (lit ''.'')) = Inr 0 \<and>
   last (fst (snd (run (example_world ok_service (Some disk_full)) CodeAnalyzer_init (lit ''.''))))
     = Print (SaveWarning (lit ''No space left on device''))"
proof -
  let ?w = "example_world ok_service (Some disk_full)"
  let ?cc = "spec_block (lit ''a.py'') (lit ''Python'') (lit ''print(1)'')"
  have v: "fst (validate_api_key (remote_of ?w)) = Inr True"
    by (simp add: example_world_def validate_api_key_def ok_service_def lit_ok_nonempty)
  have an: "fst (analyze_codebase CodeAnalyzer_init (fs_of ?w) (lit ''.'')) = Inr ?cc"
    by (simp add: example_world_def scan_dot)
  have gs: "fst (get_suggestions (remote_of ?w) ?cc) = Inr (format_response (lit ''ok''))"
    by (simp add: example_world_def get_suggestions_def block_not_blank ok_service_def
        lit_ok_nonempty)
  have wr: "save_outcome_of ?w (report_path ?w)
      (report_content ?w (format_response (lit ''ok'')) (lit ''.'')) = Some disk_full"
    by (simp add: example_world_def)
  have ex: "is_Exception disk_full"
    by (simp add: is_Exception_def disk_full_def)
  from C9_save_failure_exit_zero [OF v an block_nonempty gs wr ex] show ?thesis
    by (simp add: disk_full_def)
qed

end
